theory Spec2Isabelle
  imports Main
begin

section \<open>The NTP daemon helper library (library.py)\<close>

text \<open>
  The library formats shell commands and sends each through the engine node
  \<open>enode\<close>, a callable \<open>enode(cmd, shell='bash')\<close> that returns the captured
  output. Python strings are modelled as \<open>string\<close>, Python integers as \<open>int\<close>.
\<close>

subsection \<open>Constants\<close>

definition CONFIG_FILE :: string where
  "CONFIG_FILE = ''/etc/ntp.conf''"

definition KEYS_FILE :: string where
  "KEYS_FILE = ''/etc/ntp.keys''"

subsection \<open>Failures\<close>

text \<open>
  Every \<open>assert\<close> of the source raises \<open>AssertionError\<close>. An assertion placed
  before the call of \<open>enode\<close> is a \<open>PreconditionViolation\<close>, the assertion on the
  output of start and stop is a \<open>VerificationFailure\<close>. An exception raised by
  \<open>enode\<close> itself is not caught by the library: \<open>ChannelFailure\<close>.
\<close>

datatype error = PreconditionViolation | VerificationFailure | ChannelFailure

subsection \<open>The engine node\<close>

text \<open>
  The node is a function of the command, the shell name and the state of the
  remote side; it answers with the output (\<open>None\<close> when it raises) and the new
  remote state. The library's view of a node pairs the remote state with the
  list of calls made so far, in order.
\<close>

type_synonym 's enode = "string \<Rightarrow> string \<Rightarrow> 's \<Rightarrow> string option \<times> 's"

record 's node =
  remote :: 's
  sent :: "(string \<times> string) list"

definition call :: "'s enode \<Rightarrow> string \<Rightarrow> string \<Rightarrow> 's node \<Rightarrow> string option \<times> 's node" where
  "call enode cmd shell w =
     (case enode cmd shell (remote w) of
        (out, r) \<Rightarrow> (out, w\<lparr>remote := r, sent := sent w @ [(cmd, shell)]\<rparr>))"

text \<open>\<open>enode(cmd, shell='bash')\<close> as a statement: the output is dropped.\<close>

definition run :: "'s enode \<Rightarrow> string \<Rightarrow> 's node \<Rightarrow> (error + unit) \<times> 's node" where
  "run enode cmd w =
     (case call enode cmd ''bash'' w of
        (None, w') \<Rightarrow> (Inl ChannelFailure, w')
      | (Some out, w') \<Rightarrow> (Inr (), w'))"

subsection \<open>Strings\<close>

text \<open>Python's \<open>sub in s\<close> on strings: \<open>sub\<close> occurs in \<open>s\<close> as a contiguous block.\<close>

fun str_in :: "string \<Rightarrow> string \<Rightarrow> bool" where
  "str_in sub [] = (sub = [])"
| "str_in sub (c # cs) = (take (length sub) (c # cs) = sub \<or> str_in sub cs)"

text \<open>Python's \<open>str\<close> of an integer, as \<open>format\<close> substitutes it: decimal, with a minus sign.\<close>

fun digits_of :: "nat \<Rightarrow> string" where
  "digits_of n =
     (if n < 10 then [''0123456789'' ! n]
      else digits_of (n div 10) @ [''0123456789'' ! (n mod 10)])"

declare digits_of.simps [simp del]

definition str_int :: "int \<Rightarrow> string" where
  "str_int i = (if i < 0 then CHR ''-'' # digits_of (nat (- i)) else digits_of (nat i))"

subsection \<open>The operations\<close>

definition ntpd_stop :: "'s enode \<Rightarrow> 's node \<Rightarrow> (error + unit) \<times> 's node" where
  "ntpd_stop enode w =
     (let cmd = ''/etc/init.d/ntp stop'' in
      case call enode cmd ''bash'' w of
        (None, w') \<Rightarrow> (Inl ChannelFailure, w')
      | (Some ntpd_stop_re, w') \<Rightarrow>
          if str_in ''done'' ntpd_stop_re then (Inr (), w')
          else (Inl VerificationFailure, w'))"

definition add_ntp_server :: "'s enode \<Rightarrow> string \<Rightarrow> 's node \<Rightarrow> (error + unit) \<times> 's node" where
  "add_ntp_server enode server w =
     (if server = [] then (Inl PreconditionViolation, w)
      else let cmd = ''echo \"server '' @ server @ ''\" >> '' @ CONFIG_FILE
           in run enode cmd w)"

definition remove_ntp_server :: "'s enode \<Rightarrow> string \<Rightarrow> 's node \<Rightarrow> (error + unit) \<times> 's node" where
  "remove_ntp_server enode server w =
     (if server = [] then (Inl PreconditionViolation, w)
      else let cmd = ''sed -i '' @ [CHR 0x27] @ ''/'' @ server @ ''/d'' @ [CHR 0x27]
                     @ '' '' @ CONFIG_FILE
           in run enode cmd w)"

definition add_trustedkey :: "'s enode \<Rightarrow> int \<Rightarrow> 's node \<Rightarrow> (error + unit) \<times> 's node" where
  "add_trustedkey enode trustedkey_id w =
     (if \<not> (trustedkey_id > 0 \<and> trustedkey_id < 65535) then (Inl PreconditionViolation, w)
      else let cmd = ''echo \"trustedkey '' @ str_int trustedkey_id @ ''\" >> '' @ CONFIG_FILE
           in run enode cmd w)"

definition remove_trustedkey :: "'s enode \<Rightarrow> int \<Rightarrow> 's node \<Rightarrow> (error + unit) \<times> 's node" where
  "remove_trustedkey enode trustedkey_id w =
     (if \<not> (trustedkey_id > 0 \<and> trustedkey_id < 65535) then (Inl PreconditionViolation, w)
      else let cmd = ''sed -i '' @ [CHR 0x27] @ ''/trustedkey '' @ str_int trustedkey_id
                     @ ''/d'' @ [CHR 0x27] @ '' '' @ CONFIG_FILE
           in run enode cmd w)"

definition add_trustedkey_password ::
  "'s enode \<Rightarrow> int \<Rightarrow> string \<Rightarrow> string \<Rightarrow> 's node \<Rightarrow> (error + unit) \<times> 's node" where
  "add_trustedkey_password enode trustedkey_id key type w =
     (if \<not> (trustedkey_id > 0 \<and> trustedkey_id < 65535) then (Inl PreconditionViolation, w)
      else if key = [] then (Inl PreconditionViolation, w)
      else let cmd = ''echo \"'' @ str_int trustedkey_id @ '' '' @ type @ '' '' @ key
                     @ ''\" >> '' @ KEYS_FILE
           in run enode cmd w)"

definition remove_trustedkey_password ::
  "'s enode \<Rightarrow> int \<Rightarrow> 's node \<Rightarrow> (error + unit) \<times> 's node" where
  "remove_trustedkey_password enode trustedkey_id w =
     (if \<not> (trustedkey_id > 0 \<and> trustedkey_id < 65535) then (Inl PreconditionViolation, w)
      else let cmd = ''sed -i '' @ [CHR 0x27] @ ''/'' @ str_int trustedkey_id
                     @ ''[[:space:]]/d'' @ [CHR 0x27] @ '' '' @ KEYS_FILE
           in run enode cmd w)"

text \<open>\<open>keyfile\<close> defaults to \<open>False\<close> and \<open>trustedkey_id\<close> to \<open>None\<close> in the source.\<close>

definition ntpd_config_files ::
  "'s enode \<Rightarrow> bool \<Rightarrow> int option \<Rightarrow> 's node \<Rightarrow> (error + unit) \<times> 's node" where
  "ntpd_config_files enode keyfile trustedkey_id w =
     (let cmd = ''ntpd -c '' @ CONFIG_FILE in
      if keyfile then
        (case trustedkey_id of
           None \<Rightarrow> (Inl PreconditionViolation, w)
         | Some i \<Rightarrow> run enode (cmd @ '' -k '' @ KEYS_FILE @ '' -t '' @ str_int i) w)
      else run enode cmd w)"

definition ntpd_start :: "'s enode \<Rightarrow> 's node \<Rightarrow> (error + unit) \<times> 's node" where
  "ntpd_start enode w =
     (let cmd = ''/etc/init.d/ntp start'' in
      case call enode cmd ''bash'' w of
        (None, w') \<Rightarrow> (Inl ChannelFailure, w')
      | (Some ntpd_start_re, w') \<Rightarrow>
          if str_in ''done'' ntpd_start_re then (Inr (), w')
          else (Inl VerificationFailure, w'))"

subsection \<open>Test nodes\<close>

text \<open>Nodes with no remote state: one that prints nothing, one that prints a fixed output.\<close>

definition silent_enode :: "unit enode" where
  "silent_enode cmd shell r = (Some [], r)"

definition fixed_enode :: "string \<Rightarrow> unit enode" where
  "fixed_enode out cmd shell r = (Some out, r)"

definition fresh :: "unit node" where
  "fresh = \<lparr>remote = (), sent = []\<rparr>"

subsection \<open>A simulated remote shell over the two files\<close>

text \<open>
  The remote state is the content of \<open>/etc/ntp.conf\<close> and \<open>/etc/ntp.keys\<close>, as lists
  of lines. The simulated node understands the two command forms the library sends
  to edit them, with the meaning the shell and \<open>sed\<close> give them:
  \<^item> \<open>echo "<text>" >> <file>\<close> appends the line \<open>text\<close> to the file;
  \<^item> \<open>sed -i '/<regex>/d' <file>\<close> deletes every line of the file in which the basic
    regular expression matches somewhere.
  It refuses (\<open>None\<close>) every other command, a text that the shell would expand
  inside double quotes, and a regular expression with anything but ordinary
  characters, \<open>.\<close> and \<open>[[:space:]]\<close>.
\<close>

record files =
  conf_lines :: "string list"
  keys_lines :: "string list"

datatype target = Conf | Keys

datatype atom = Lit char | AnyChar | SpaceClass

definition strip_prefix :: "string \<Rightarrow> string \<Rightarrow> string option" where
  "strip_prefix p s = (if take (length p) s = p then Some (drop (length p) s) else None)"

definition parse_target :: "string \<Rightarrow> target option" where
  "parse_target f =
     (if f = CONFIG_FILE then Some Conf else if f = KEYS_FILE then Some Keys else None)"

text \<open>Characters that stand for themselves inside double quotes.\<close>

definition plain :: "char \<Rightarrow> bool" where
  "plain c = (c \<notin> set [CHR 0x22, CHR ''$'', CHR 0x60, CHR 0x5C, CHR 0x0A])"

definition parse_echo :: "string \<Rightarrow> (string \<times> target) option" where
  "parse_echo cmd =
     (case strip_prefix ''echo \"'' cmd of
        None \<Rightarrow> None
      | Some rest \<Rightarrow>
          (let text = takeWhile (\<lambda>c. c \<noteq> CHR 0x22) rest;
               tail = dropWhile (\<lambda>c. c \<noteq> CHR 0x22) rest
           in case strip_prefix ''\" >> '' tail of
                None \<Rightarrow> None
              | Some f \<Rightarrow>
                  (case parse_target f of
                     None \<Rightarrow> None
                   | Some t \<Rightarrow>
                       if list_all plain text \<and> take 1 text \<noteq> ''-'' then Some (text, t)
                       else None)))"

text \<open>Characters that match themselves in a basic regular expression between \<open>'/\<close> and \<open>/\<close>.\<close>

definition ordinary :: "char \<Rightarrow> bool" where
  "ordinary c =
     (c \<notin> set [CHR ''.'', CHR ''['', CHR '']'', CHR ''*'', CHR ''^'', CHR ''$'',
                CHR 0x5C, CHR ''/'', CHR 0x27, CHR 0x0A])"

function parse_pat :: "string \<Rightarrow> atom list option" where
  "parse_pat s =
     (if s = [] then Some []
      else if take 11 s = ''[[:space:]]'' then map_option ((#) SpaceClass) (parse_pat (drop 11 s))
      else if hd s = CHR ''.'' then map_option ((#) AnyChar) (parse_pat (tl s))
      else if ordinary (hd s) then map_option ((#) (Lit (hd s))) (parse_pat (tl s))
      else None)"
  by pat_completeness auto
termination
  by (relation "measure length") auto

declare parse_pat.simps [simp del]

definition parse_sed :: "string \<Rightarrow> (atom list \<times> target) option" where
  "parse_sed cmd =
     (case strip_prefix (''sed -i '' @ [CHR 0x27] @ ''/'') cmd of
        None \<Rightarrow> None
      | Some rest \<Rightarrow>
          (let pat = takeWhile (\<lambda>c. c \<noteq> CHR ''/'') rest;
               tail = dropWhile (\<lambda>c. c \<noteq> CHR ''/'') rest
           in case strip_prefix (''/d'' @ [CHR 0x27] @ '' '') tail of
                None \<Rightarrow> None
              | Some f \<Rightarrow>
                  (case parse_target f of
                     None \<Rightarrow> None
                   | Some t \<Rightarrow>
                       (case parse_pat pat of
                          None \<Rightarrow> None
                        | Some [] \<Rightarrow> None
                        | Some (a # as) \<Rightarrow> Some (a # as, t)))))"

text \<open>The class \<open>[[:space:]]\<close>: space, tab, newline, vertical tab, form feed, carriage return.\<close>

definition is_space :: "char \<Rightarrow> bool" where
  "is_space c = (c \<in> set [CHR 0x20, CHR 0x09, CHR 0x0A, CHR 0x0B, CHR 0x0C, CHR 0x0D])"

fun atom_matches :: "atom \<Rightarrow> char \<Rightarrow> bool" where
  "atom_matches (Lit d) c = (c = d)"
| "atom_matches AnyChar c = True"
| "atom_matches SpaceClass c = is_space c"

fun match_here :: "atom list \<Rightarrow> string \<Rightarrow> bool" where
  "match_here [] s = True"
| "match_here (a # as) [] = False"
| "match_here (a # as) (c # cs) = (atom_matches a c \<and> match_here as cs)"

text \<open>An unanchored expression matches a line when it matches at some position of it.\<close>

fun match_line :: "atom list \<Rightarrow> string \<Rightarrow> bool" where
  "match_line as [] = match_here as []"
| "match_line as (c # cs) = (match_here as (c # cs) \<or> match_line as cs)"

fun append_line :: "target \<Rightarrow> string \<Rightarrow> files \<Rightarrow> files" where
  "append_line Conf l fs = fs\<lparr>conf_lines := conf_lines fs @ [l]\<rparr>"
| "append_line Keys l fs = fs\<lparr>keys_lines := keys_lines fs @ [l]\<rparr>"

fun delete_lines :: "target \<Rightarrow> atom list \<Rightarrow> files \<Rightarrow> files" where
  "delete_lines Conf as fs =
     fs\<lparr>conf_lines := filter (\<lambda>l. \<not> match_line as l) (conf_lines fs)\<rparr>"
| "delete_lines Keys as fs =
     fs\<lparr>keys_lines := filter (\<lambda>l. \<not> match_line as l) (keys_lines fs)\<rparr>"

definition shell_enode :: "files enode" where
  "shell_enode cmd shell fs =
     (if shell \<noteq> ''bash'' then (None, fs)
      else case parse_echo cmd of
             Some (text, t) \<Rightarrow> (Some [], append_line t text fs)
           | None \<Rightarrow>
               (case parse_sed cmd of
                  Some (as, t) \<Rightarrow> (Some [], delete_lines t as fs)
                | None \<Rightarrow> (None, fs)))"

text \<open>
  The round trip on the key file: add the password of key 5, then remove the
  password of key 5, starting from the files \<open>fs\<close> with nothing sent yet.
\<close>

definition add_then_remove :: "files \<Rightarrow> (error + unit) \<times> files node" where
  "add_then_remove fs =
     remove_trustedkey_password shell_enode 5
       (snd (add_trustedkey_password shell_enode 5 ''secret'' ''M'' \<lparr>remote = fs, sent = []\<rparr>))"

section \<open>Properties\<close>

subsection \<open>Auxiliary facts\<close>

lemma sent_run: "sent (snd (run enode cmd w)) = sent w @ [(cmd, ''bash'')]"
  by (simp add: run_def call_def split: prod.splits option.splits)

lemma run_no_precondition: "fst (run enode cmd w) \<noteq> Inl PreconditionViolation"
  by (simp add: run_def split: prod.splits option.splits)

text \<open>\<open>str_in\<close> is the substring relation.\<close>

lemma str_in_iff: "str_in sub s \<longleftrightarrow> (\<exists>p q. s = p @ sub @ q)"
proof (induction s)
  case Nil
  then show ?case by auto
next
  case (Cons c cs)
  have here: "take (length sub) (c # cs) = sub \<longleftrightarrow> (\<exists>q. c # cs = sub @ q)"
    by (metis append_eq_conv_conj)
  have "(\<exists>p q. c # cs = p @ sub @ q) \<longleftrightarrow> (\<exists>q. c # cs = sub @ q) \<or> (\<exists>p q. cs = p @ sub @ q)"
  proof
    assume "\<exists>p q. c # cs = p @ sub @ q"
    then obtain p q where e: "c # cs = p @ sub @ q" by blast
    show "(\<exists>q. c # cs = sub @ q) \<or> (\<exists>p q. cs = p @ sub @ q)"
    proof (cases p)
      case Nil
      with e show ?thesis by auto
    next
      case (Cons a p')
      with e have "cs = p' @ sub @ q" by simp
      then show ?thesis by blast
    qed
  next
    assume "(\<exists>q. c # cs = sub @ q) \<or> (\<exists>p q. cs = p @ sub @ q)"
    then show "\<exists>p q. c # cs = p @ sub @ q"
    proof
      assume "\<exists>q. c # cs = sub @ q"
      then obtain q where "c # cs = [] @ sub @ q" by auto
      then show ?thesis by blast
    next
      assume "\<exists>p q. cs = p @ sub @ q"
      then obtain p q where "cs = p @ sub @ q" by blast
      then have "c # cs = (c # p) @ sub @ q" by simp
      then show ?thesis by blast
    qed
  qed
  with here Cons.IH show ?case by simp
qed

lemma str_int_5: "str_int 5 = ''5''"
  by (simp add: str_int_def digits_of.simps)

subsection \<open>The round trip on the key file\<close>

lemma parse_add_5: "parse_echo ''echo \"5 M secret\" >> /etc/ntp.keys'' = Some (''5 M secret'', Keys)"
  by code_simp

lemma parse_remove_5:
  "parse_sed (''sed -i '' @ [CHR 0x27] @ ''/5[[:space:]]/d'' @ [CHR 0x27] @ '' /etc/ntp.keys'')
     = Some ([Lit CHR ''5'', SpaceClass], Keys)"
  by code_simp

lemma parse_remove_5_not_echo:
  "parse_echo (''sed -i '' @ [CHR 0x27] @ ''/5[[:space:]]/d'' @ [CHR 0x27] @ '' /etc/ntp.keys'')
     = None"
  by code_simp

text \<open>
  Both commands are understood by the simulated shell, both calls return normally,
  and the key file afterwards is the old one with the new line appended, without
  the lines in which \<open>5[[:space:]]\<close> matches somewhere.
\<close>

lemma add_then_remove_eq:
  "add_then_remove fs =
     (Inr (),
      \<lparr>remote = fs\<lparr>keys_lines := filter (\<lambda>l. \<not> match_line [Lit CHR ''5'', SpaceClass] l)
                                        (keys_lines fs @ [''5 M secret''])\<rparr>,
       sent = [(''echo \"5 M secret\" >> /etc/ntp.keys'', ''bash''),
               (''sed -i '' @ [CHR 0x27] @ ''/5[[:space:]]/d'' @ [CHR 0x27] @ '' /etc/ntp.keys'',
                ''bash'')]\<rparr>)"
  using parse_add_5 parse_remove_5 parse_remove_5_not_echo
  by (simp add: add_then_remove_def add_trustedkey_password_def remove_trustedkey_password_def
        str_int_5 KEYS_FILE_def run_def call_def shell_enode_def)

lemma starts_with_5_matches: "take 2 l = ''5 '' \<Longrightarrow> match_line [Lit CHR ''5'', SpaceClass] l"
  by (cases l; cases "tl l") (auto simp: is_space_def)

text \<open>The first half of the round trip holds: no line starting with \<open>5 \<close> is left.\<close>

lemma add_then_remove_no_line_of_5:
  "\<forall>l \<in> set (keys_lines (remote (snd (add_then_remove fs)))). take 2 l \<noteq> ''5 ''"
  by (auto simp: add_then_remove_eq is_space_def dest: starts_with_5_matches)

text \<open>
  C1. Adding the password of key 5 (\<open>secret\<close>, type \<open>M\<close>) and then removing the
  password of key 5 should leave no line starting with \<open>5 \<close> and keep a line
  \<open>55 M other\<close> that was there before. On the key file with the two lines
  \<open>55 M other\<close> and \<open>51 M other\<close> the code sends
  \<open>sed -i '/5[[:space:]]/d' /etc/ntp.keys\<close>: the expression is bounded on the right
  only, it matches the second \<open>5\<close> of \<open>55\<close> with the space after it, and the line of
  key 55 is deleted with the line of key 5. The line of key 51 survives.
\<close>

theorem remove_trustedkey_password_deletes_key_55:
  "add_then_remove \<lparr>conf_lines = [], keys_lines = [''55 M other'', ''51 M other'']\<rparr> =
     (Inr (),
      \<lparr>remote = \<lparr>conf_lines = [], keys_lines = [''51 M other'']\<rparr>,
       sent = [(''echo \"5 M secret\" >> /etc/ntp.keys'', ''bash''),
               (''sed -i '' @ [CHR 0x27] @ ''/5[[:space:]]/d'' @ [CHR 0x27] @ '' /etc/ntp.keys'',
                ''bash'')]\<rparr>)"
  by (simp add: add_then_remove_eq is_space_def)

subsection \<open>The range of key ids\<close>

text \<open>
  C2, in the form that holds. Add trusted key, remove trusted key, add trusted-key password and
  remove trusted-key password abort with a precondition violation, the node
  untouched, when the id is not in the open range (0, 65535). Configure daemon
  files has no range check: with a key file and any integer id it sends the
  command with that id, and without a key file it sends the plain command.
\<close>

theorem key_id_range_enforced_by_add_and_remove_only:
  "(i \<le> 0 \<or> i \<ge> 65535 \<longrightarrow>
      add_trustedkey enode i w = (Inl PreconditionViolation, w)
    \<and> remove_trustedkey enode i w = (Inl PreconditionViolation, w)
    \<and> add_trustedkey_password enode i key type w = (Inl PreconditionViolation, w)
    \<and> remove_trustedkey_password enode i w = (Inl PreconditionViolation, w))
 \<and> ntpd_config_files enode True (Some i) w
      = run enode (''ntpd -c /etc/ntp.conf -k /etc/ntp.keys -t '' @ str_int i) w
 \<and> ntpd_config_files enode False (Some i) w = run enode ''ntpd -c /etc/ntp.conf'' w"
  by (auto simp add: add_trustedkey_def remove_trustedkey_def add_trustedkey_password_def
        remove_trustedkey_password_def ntpd_config_files_def CONFIG_FILE_def KEYS_FILE_def)

theorem key_id_range_enforced_by_add_and_remove_only_witness:
  "add_trustedkey silent_enode 70000 fresh = (Inl PreconditionViolation, fresh)
 \<and> remove_trustedkey silent_enode 70000 fresh = (Inl PreconditionViolation, fresh)
 \<and> add_trustedkey_password silent_enode 70000 ''secret'' ''M'' fresh
      = (Inl PreconditionViolation, fresh)
 \<and> remove_trustedkey_password silent_enode 70000 fresh = (Inl PreconditionViolation, fresh)
 \<and> sent (snd (ntpd_config_files silent_enode True (Some 70000) fresh))
      = [(''ntpd -c /etc/ntp.conf -k /etc/ntp.keys -t 70000'', ''bash'')]"
  using key_id_range_enforced_by_add_and_remove_only
          [of 70000 silent_enode fresh "''secret''" "''M''"]
  by (simp add: sent_run fresh_def str_int_def digits_of.simps)

text \<open>
  Configure daemon files with a key file and the id 70000, which is out of range:
  the call returns normally and the command has been sent.
\<close>

theorem ntpd_config_files_range_counterexample:
  "\<not> (0 < (70000::int) \<and> (70000::int) < 65535)
 \<and> ntpd_config_files silent_enode True (Some 70000) fresh
      = (Inr (), \<lparr>remote = (),
                  sent = [(''ntpd -c /etc/ntp.conf -k /etc/ntp.keys -t 70000'', ''bash'')]\<rparr>)"
  by (simp add: ntpd_config_files_def CONFIG_FILE_def KEYS_FILE_def run_def call_def
        silent_enode_def fresh_def str_int_def digits_of.simps)

text \<open>
  C3. For every integer id with \<open>id \<le> 0\<close> or \<open>id \<ge> 65535\<close>, each of add trusted key,
  remove trusted key, add trusted-key password and remove trusted-key password
  fails with a precondition violation and makes no call on the node: the list of
  calls and the remote state are what they were.
\<close>

theorem key_operations_reject_bad_id:
  "i \<le> 0 \<or> i \<ge> 65535 \<Longrightarrow>
     fst (add_trustedkey enode i w) = Inl PreconditionViolation
   \<and> sent (snd (add_trustedkey enode i w)) = sent w
   \<and> remote (snd (add_trustedkey enode i w)) = remote w
   \<and> fst (remove_trustedkey enode i w) = Inl PreconditionViolation
   \<and> sent (snd (remove_trustedkey enode i w)) = sent w
   \<and> remote (snd (remove_trustedkey enode i w)) = remote w
   \<and> fst (add_trustedkey_password enode i key type w) = Inl PreconditionViolation
   \<and> sent (snd (add_trustedkey_password enode i key type w)) = sent w
   \<and> remote (snd (add_trustedkey_password enode i key type w)) = remote w
   \<and> fst (remove_trustedkey_password enode i w) = Inl PreconditionViolation
   \<and> sent (snd (remove_trustedkey_password enode i w)) = sent w
   \<and> remote (snd (remove_trustedkey_password enode i w)) = remote w"
  by (auto simp add: add_trustedkey_def remove_trustedkey_def add_trustedkey_password_def
        remove_trustedkey_password_def)

theorem key_operations_reject_bad_id_witness:
  "((0::int) \<le> 0 \<or> (0::int) \<ge> 65535)
 \<and> fst (add_trustedkey silent_enode 0 fresh) = Inl PreconditionViolation
 \<and> sent (snd (add_trustedkey silent_enode 0 fresh)) = []
 \<and> fst (remove_trustedkey silent_enode 0 fresh) = Inl PreconditionViolation
 \<and> sent (snd (remove_trustedkey silent_enode 0 fresh)) = []
 \<and> fst (add_trustedkey_password silent_enode 0 ''secret'' ''M'' fresh) = Inl PreconditionViolation
 \<and> sent (snd (add_trustedkey_password silent_enode 0 ''secret'' ''M'' fresh)) = []
 \<and> fst (remove_trustedkey_password silent_enode 0 fresh) = Inl PreconditionViolation
 \<and> sent (snd (remove_trustedkey_password silent_enode 0 fresh)) = []"
  using key_operations_reject_bad_id [of 0 silent_enode fresh "''secret''" "''M''"]
  by (simp add: fresh_def)

subsection \<open>Start and stop\<close>

text \<open>
  C4. Whatever output the node returns for the start command, start daemon fails
  with a verification failure exactly when the output does not contain \<open>done\<close>
  and returns normally exactly when it does; the command has been sent in both
  cases. The same holds for stop daemon and the stop command.
\<close>

theorem ntpd_start_stop_marker:
  "(enode ''/etc/init.d/ntp start'' ''bash'' (remote w) = (Some out, r) \<longrightarrow>
      (fst (ntpd_start enode w) = Inl VerificationFailure \<longleftrightarrow> \<not> (\<exists>p q. out = p @ ''done'' @ q))
    \<and> (fst (ntpd_start enode w) = Inr () \<longleftrightarrow> (\<exists>p q. out = p @ ''done'' @ q))
    \<and> sent (snd (ntpd_start enode w)) = sent w @ [(''/etc/init.d/ntp start'', ''bash'')])
 \<and> (enode ''/etc/init.d/ntp stop'' ''bash'' (remote w) = (Some out, r) \<longrightarrow>
      (fst (ntpd_stop enode w) = Inl VerificationFailure \<longleftrightarrow> \<not> (\<exists>p q. out = p @ ''done'' @ q))
    \<and> (fst (ntpd_stop enode w) = Inr () \<longleftrightarrow> (\<exists>p q. out = p @ ''done'' @ q))
    \<and> sent (snd (ntpd_stop enode w)) = sent w @ [(''/etc/init.d/ntp stop'', ''bash'')])"
  by (auto simp add: ntpd_start_def ntpd_stop_def call_def Let_def str_in_iff)

theorem ntpd_start_stop_marker_witness:
  "fst (ntpd_start (fixed_enode ''Starting ntpd... done'') fresh) = Inr ()
 \<and> fst (ntpd_stop (fixed_enode ''Starting ntpd... done'') fresh) = Inr ()
 \<and> fst (ntpd_start (fixed_enode ''failed'') fresh) = Inl VerificationFailure
 \<and> fst (ntpd_stop (fixed_enode ''failed'') fresh) = Inl VerificationFailure"
proof -
  have occurs: "\<exists>p q. ''Starting ntpd... done'' = p @ ''done'' @ q"
    using str_in_iff [of "''done''" "''Starting ntpd... done''"] by simp
  have absent: "\<not> (\<exists>p q. ''failed'' = p @ ''done'' @ q)"
    using str_in_iff [of "''done''" "''failed''"] by simp
  have reply: "fixed_enode out cmd ''bash'' (remote fresh) = (Some out, ())" for out cmd
    by (simp add: fixed_enode_def)
  show ?thesis
    using ntpd_start_stop_marker
            [of "fixed_enode ''Starting ntpd... done''" fresh "''Starting ntpd... done''" "()"]
          ntpd_start_stop_marker [of "fixed_enode ''failed''" fresh "''failed''" "()"]
          occurs absent reply
    by blast
qed

subsection \<open>Configure daemon files\<close>

text \<open>
  C5. Without a key file, configure daemon files sends exactly
  \<open>ntpd -c /etc/ntp.conf\<close>, whatever the key id; with a key file and the key id 7 it
  sends exactly \<open>ntpd -c /etc/ntp.conf -k /etc/ntp.keys -t 7\<close>. In each case one call
  is added to the calls made so far.
\<close>

theorem ntpd_config_files_command:
  "sent (snd (ntpd_config_files enode False tk w)) = sent w @ [(''ntpd -c /etc/ntp.conf'', ''bash'')]
 \<and> sent (snd (ntpd_config_files enode True (Some 7) w))
      = sent w @ [(''ntpd -c /etc/ntp.conf -k /etc/ntp.keys -t 7'', ''bash'')]"
  by (simp add: ntpd_config_files_def CONFIG_FILE_def KEYS_FILE_def sent_run str_int_def
        digits_of.simps)

text \<open>
  C6. With a key file and no key id, configure daemon files fails with a
  precondition violation and the node is untouched: nothing has been sent.
\<close>

theorem ntpd_config_files_missing_key:
  "ntpd_config_files enode True None w = (Inl PreconditionViolation, w)"
  by (simp add: ntpd_config_files_def)

text \<open>
  C9. Without a key file the key id has no influence: two calls that differ in the
  key id only behave the same, and two calls on any two nodes send the same
  command.
\<close>

theorem ntpd_config_files_ignores_key:
  "ntpd_config_files enode False tk1 w = ntpd_config_files enode False tk2 w
 \<and> last (sent (snd (ntpd_config_files e1 False tk1 w1)))
      = last (sent (snd (ntpd_config_files e2 False tk2 w2)))"
  by (simp add: ntpd_config_files_def sent_run)

subsection \<open>Servers\<close>

text \<open>
  C7. For a non-empty address, add server makes exactly one call on the node, the
  command \<open>echo "server <address>" >> /etc/ntp.conf\<close>; for the empty address it fails
  with a precondition violation and the node is untouched.
\<close>

theorem add_ntp_server_command:
  "(server \<noteq> [] \<longrightarrow>
      sent (snd (add_ntp_server enode server w))
        = sent w @ [(''echo \"server '' @ server @ ''\" >> /etc/ntp.conf'', ''bash'')]
      \<and> fst (add_ntp_server enode server w) \<noteq> Inl PreconditionViolation)
   \<and> add_ntp_server enode [] w = (Inl PreconditionViolation, w)"
  by (simp add: add_ntp_server_def CONFIG_FILE_def sent_run run_no_precondition Let_def)

theorem add_ntp_server_command_witness:
  "sent (snd (add_ntp_server silent_enode ''10.0.0.1'' fresh))
     = [(''echo \"server 10.0.0.1\" >> /etc/ntp.conf'', ''bash'')]
   \<and> add_ntp_server silent_enode [] fresh = (Inl PreconditionViolation, fresh)"
  using add_ntp_server_command [of "''10.0.0.1''" silent_enode fresh]
  by (simp add: fresh_def)

text \<open>
  C8. For a non-empty address, remove server makes exactly one call on the node,
  the command \<open>sed -i '/<address>/d' /etc/ntp.conf\<close>; for the empty address it fails
  with a precondition violation and the node is untouched.
\<close>

theorem remove_ntp_server_command:
  "(server \<noteq> [] \<longrightarrow>
      sent (snd (remove_ntp_server enode server w))
        = sent w @ [(''sed -i '' @ [CHR 0x27] @ ''/'' @ server @ ''/d'' @ [CHR 0x27]
                      @ '' /etc/ntp.conf'', ''bash'')]
      \<and> fst (remove_ntp_server enode server w) \<noteq> Inl PreconditionViolation)
   \<and> remove_ntp_server enode [] w = (Inl PreconditionViolation, w)"
  by (simp add: remove_ntp_server_def CONFIG_FILE_def sent_run run_no_precondition Let_def)

theorem remove_ntp_server_command_witness:
  "sent (snd (remove_ntp_server silent_enode ''10.0.0.1'' fresh))
     = [(''sed -i '' @ [CHR 0x27] @ ''/10.0.0.1/d'' @ [CHR 0x27] @ '' /etc/ntp.conf'', ''bash'')]
   \<and> remove_ntp_server silent_enode [] fresh = (Inl PreconditionViolation, fresh)"
  using remove_ntp_server_command [of "''10.0.0.1''" silent_enode fresh]
  by (simp add: fresh_def)

subsection \<open>The hash type\<close>

text \<open>
  C10. Add trusted-key password does not look at the hash type: for an id in range
  and a non-empty password it sends \<open>echo "<id> <type> <password>" >> /etc/ntp.keys\<close>
  for every type, and for the empty type the line has two spaces in a row between
  the id and the password.
\<close>

theorem add_trustedkey_password_type_unchecked:
  "0 < i \<and> i < 65535 \<and> key \<noteq> [] \<Longrightarrow>
     sent (snd (add_trustedkey_password enode i key type w))
       = sent w @ [(''echo \"'' @ str_int i @ '' '' @ type @ '' '' @ key @ ''\" >> /etc/ntp.keys'',
                    ''bash'')]
   \<and> sent (snd (add_trustedkey_password enode i key [] w))
       = sent w @ [(''echo \"'' @ str_int i @ ''  '' @ key @ ''\" >> /etc/ntp.keys'', ''bash'')]"
  by (simp add: add_trustedkey_password_def KEYS_FILE_def sent_run)

theorem add_trustedkey_password_type_unchecked_witness:
  "sent (snd (add_trustedkey_password silent_enode 5 ''secret'' ''SHA1'' fresh))
     = [(''echo \"5 SHA1 secret\" >> /etc/ntp.keys'', ''bash'')]
 \<and> sent (snd (add_trustedkey_password silent_enode 5 ''secret'' [] fresh))
     = [(''echo \"5  secret\" >> /etc/ntp.keys'', ''bash'')]"
  using add_trustedkey_password_type_unchecked [of 5 "''secret''" silent_enode "''SHA1''" fresh]
  by (simp add: fresh_def str_int_5)

end
